theory Spec2Isabelle
  imports Complex_Main "HOL-Library.Word"
begin

section \<open>Python values shared by the modules\<close>

type_synonym byte = "8 word"
type_synonym bytes = "byte list"

text \<open>
  A raised exception is a value: its class and its message (\<^verbatim>\<open>str(e)\<close>).
  \<open>PyException\<close> is the plain \<^verbatim>\<open>Exception\<close> that the handlers of
  \<^verbatim>\<open>encryption.py\<close> raise again; \<open>RuntimeError\<close> is what a call into the
  widgets of the user interface raises outside the main thread.
\<close>

datatype exn_class =
  FileNotFoundError | ValueError | RecursionError | UnicodeEncodeError | InvalidToken
  | RpcError | KeyError | RuntimeError | PyException

datatype exn = Exn exn_class string

fun str_of :: "exn \<Rightarrow> string" where
  "str_of (Exn c m) = m"

fun class_of :: "exn \<Rightarrow> exn_class" where
  "class_of (Exn c m) = c"

section \<open>encryption.py: EncryptumCrypto\<close>

text \<open>
  The module calls three libraries that are not part of the repository:
  \<^verbatim>\<open>cryptography\<close> (PBKDF2HMAC, Fernet), \<^verbatim>\<open>base64\<close> and
  \<^verbatim>\<open>hashlib\<close>. They are the fields of \<open>crypto_lib\<close>; every
  definition below takes the library as its first argument and the theorems hold for
  every library, under the documented contract of Fernet where one is needed.
  \<^item> \<open>str_encode\<close> is \<^verbatim>\<open>password.encode()\<close> (it raises on a string
    that UTF-8 cannot encode);
  \<^item> \<open>pbkdf2_derive iterations salt pw\<close> is \<^verbatim>\<open>PBKDF2HMAC(SHA256, 32, salt,
    iterations).derive(pw)\<close>;
  \<^item> \<open>Fernet key\<close> is the constructor, which rejects a key that is not the
    url-safe base64 of 32 bytes; the Fernet object is modelled by the key it holds;
  \<^item> \<open>fernet_encrypt f nonce data\<close> is \<^verbatim>\<open>f.encrypt(data)\<close>, where
    \<open>nonce\<close> stands for the IV and the timestamp the call draws;
  \<^item> \<open>fernet_decrypt f token\<close> is \<^verbatim>\<open>f.decrypt(token)\<close>, which raises
    \<^verbatim>\<open>InvalidToken\<close> when it does not authenticate the token;
  \<^item> \<open>sha256_digest\<close> is \<^verbatim>\<open>hashlib.sha256(data).digest()\<close>.
\<close>

record crypto_lib =
  str_encode :: "string \<Rightarrow> exn + bytes"
  pbkdf2_derive :: "nat \<Rightarrow> bytes \<Rightarrow> bytes \<Rightarrow> bytes"
  urlsafe_b64encode :: "bytes \<Rightarrow> bytes"
  Fernet :: "bytes \<Rightarrow> exn + bytes"
  fernet_encrypt :: "bytes \<Rightarrow> bytes \<Rightarrow> bytes \<Rightarrow> bytes"
  fernet_decrypt :: "bytes \<Rightarrow> bytes \<Rightarrow> exn + bytes"
  sha256_digest :: "bytes \<Rightarrow> bytes"

text \<open>\<^verbatim>\<open>hexdigest()\<close>: two lowercase hexadecimal digits per byte of the digest.\<close>

definition hex_digit :: "nat \<Rightarrow> char" where
  "hex_digit n = ''0123456789abcdef'' ! n"

definition hex_digit_upper :: "nat \<Rightarrow> char" where
  "hex_digit_upper n = ''0123456789ABCDEF'' ! n"

definition hex_of :: "(nat \<Rightarrow> char) \<Rightarrow> bytes \<Rightarrow> string" where
  "hex_of digit bs = concat (map (\<lambda>b. [digit (unat b div 16), digit (unat b mod 16)]) bs)"

definition hexdigest :: "('a crypto_lib_scheme) \<Rightarrow> bytes \<Rightarrow> string" where
  "hexdigest lib data = hex_of hex_digit (sha256_digest lib data)"

text \<open>The same digest written with the digits \<open>A\<close> to \<open>F\<close> in upper case.\<close>

definition hexdigest_upper :: "('a crypto_lib_scheme) \<Rightarrow> bytes \<Rightarrow> string" where
  "hexdigest_upper lib data = hex_of hex_digit_upper (sha256_digest lib data)"

text \<open>A byte whose hexadecimal form has a letter: one of its two digits is ten or more.\<close>

definition has_hex_letter :: "byte \<Rightarrow> bool" where
  "has_hex_letter b = (10 \<le> unat b div 16 \<or> 10 \<le> unat b mod 16)"

text \<open>
  \<^verbatim>\<open>generate_key_from_password(password, salt=None)\<close>. The 16 bytes that
  \<^verbatim>\<open>os.urandom(16)\<close> returns when no salt is given are the argument \<open>urandom\<close>.
\<close>

definition generate_key_from_password ::
  "('a crypto_lib_scheme) \<Rightarrow> nat \<Rightarrow> bytes \<Rightarrow> string \<Rightarrow> bytes option \<Rightarrow> exn + (bytes \<times> bytes)" where
  "generate_key_from_password lib iterations urandom password salt_arg =
     (let salt' = (case salt_arg of None \<Rightarrow> urandom | Some s \<Rightarrow> s) in
      case str_encode lib password of
        Inl e \<Rightarrow> Inl e
      | Inr pw \<Rightarrow> Inr (urlsafe_b64encode lib (pbkdf2_derive lib iterations salt' pw), salt'))"

record encryption_result =
  encrypted_data :: bytes
  salt :: bytes
  original_hash :: string
  original_name :: string
  original_size :: nat
  encrypted_size :: nat

text \<open>\<^verbatim>\<open>os.path.basename\<close> (POSIX): what follows the last slash.\<close>

definition basename :: "string \<Rightarrow> string" where
  "basename p = rev (takeWhile (\<lambda>c. c \<noteq> CHR ''/'') (rev p))"

text \<open>
  The handler \<^verbatim>\<open>except Exception as e: raise Exception(f"<prefix>{str(e)}")\<close>
  that closes both \<^verbatim>\<open>encrypt_file\<close> and \<^verbatim>\<open>decrypt_file\<close>.
\<close>

definition reraise :: "string \<Rightarrow> exn + 'a \<Rightarrow> exn + 'a" where
  "reraise prefix r = (case r of Inl e \<Rightarrow> Inl (Exn PyException (prefix @ str_of e)) | Inr v \<Rightarrow> Inr v)"

text \<open>
  \<^verbatim>\<open>encrypt_file(file_path, password)\<close>. The file system is a map from paths to
  contents; \<open>urandom\<close> and \<open>nonce\<close> are the random bytes the call draws. The steps
  are in the order of the source: the existence check, the key, the Fernet object, the
  read, the emptiness check, the encryption, the hash.
\<close>

definition encrypt_file ::
  "('a crypto_lib_scheme) \<Rightarrow> nat \<Rightarrow> (string \<rightharpoonup> bytes) \<Rightarrow> bytes \<Rightarrow> bytes \<Rightarrow> string \<Rightarrow> string
     \<Rightarrow> exn + encryption_result" where
  "encrypt_file lib iterations fs urandom nonce file_path password =
     reraise ''Encryption failed: ''
       (case fs file_path of
          None \<Rightarrow> Inl (Exn FileNotFoundError (''File not found: '' @ file_path))
        | Some file_data \<Rightarrow>
           (case generate_key_from_password lib iterations urandom password None of
              Inl e \<Rightarrow> Inl e
            | Inr (key, salt') \<Rightarrow>
               (case Fernet lib key of
                  Inl e \<Rightarrow> Inl e
                | Inr fernet \<Rightarrow>
                    if length file_data = 0 then Inl (Exn ValueError ''Cannot encrypt empty file'')
                    else
                      let encrypted_data' = fernet_encrypt lib fernet nonce file_data;
                          file_hash = hexdigest lib file_data
                      in Inr \<lparr> encrypted_data = encrypted_data',
                               salt = salt',
                               original_hash = file_hash,
                               original_name = basename file_path,
                               original_size = length file_data,
                               encrypted_size = length encrypted_data' \<rparr>)))"

text \<open>\<^verbatim>\<open>decrypt_file(encrypted_data, password, salt)\<close>.\<close>

definition decrypt_file ::
  "('a crypto_lib_scheme) \<Rightarrow> nat \<Rightarrow> bytes \<Rightarrow> string \<Rightarrow> bytes \<Rightarrow> exn + bytes" where
  "decrypt_file lib iterations encrypted_data' password salt' =
     reraise ''Decryption failed: ''
       (case generate_key_from_password lib iterations [] password (Some salt') of
          Inl e \<Rightarrow> Inl e
        | Inr (key, _) \<Rightarrow>
           (case Fernet lib key of
              Inl e \<Rightarrow> Inl e
            | Inr fernet \<Rightarrow> fernet_decrypt lib fernet encrypted_data'))"

text \<open>\<^verbatim>\<open>verify_file_integrity(decrypted_data, original_hash)\<close>.\<close>

definition verify_file_integrity :: "('a crypto_lib_scheme) \<Rightarrow> bytes \<Rightarrow> string \<Rightarrow> bool" where
  "verify_file_integrity lib decrypted_data original_hash' =
     (let current_hash = hexdigest lib decrypted_data in current_hash = original_hash')"

text \<open>
  The contract of the library that the round trip rests on, as the documentation of
  \<^verbatim>\<open>cryptography\<close> gives it: the KDF returns the 32 bytes it was asked for, the
  constructor accepts the url-safe base64 of any 32 bytes, and a Fernet object decrypts
  what it encrypted.
\<close>

definition fernet_contract :: "('a crypto_lib_scheme) \<Rightarrow> bool" where
  "fernet_contract lib =
     ((\<forall>n s pw. length (pbkdf2_derive lib n s pw) = 32) \<and>
      (\<forall>raw. length raw = 32 \<longrightarrow> (\<exists>f. Fernet lib (urlsafe_b64encode lib raw) = Inr f)) \<and>
      (\<forall>f nonce data. fernet_decrypt lib f (fernet_encrypt lib f nonce data) = Inr data))"

text \<open>
  A small library that meets the contract, to run the definitions on: the key is the
  password and the salt cut or filled to 32 bytes, a token is the key followed by the
  data, and decryption rejects a token that does not start with the key. Its digest is
  the constant SHA-256 digest of the three bytes \<^verbatim>\<open>abc\<close>.
\<close>

definition toy_lib :: crypto_lib where
  "toy_lib = \<lparr>
     str_encode = (\<lambda>s. Inr (map (\<lambda>c. of_nat (of_char c)) s)),
     pbkdf2_derive = (\<lambda>n s pw. take 32 (pw @ s @ replicate 32 0)),
     urlsafe_b64encode = (\<lambda>b. b),
     Fernet = (\<lambda>k. if length k = 32 then Inr k else Inl (Exn ValueError ''Fernet key must be 32 url-safe base64-encoded bytes.'')),
     fernet_encrypt = (\<lambda>f nonce data. f @ data),
     fernet_decrypt = (\<lambda>f tok. if take (length f) tok = f then Inr (drop (length f) tok) else Inl (Exn InvalidToken [])),
     sha256_digest = (\<lambda>d.
       [0xba, 0x78, 0x16, 0xbf, 0x8f, 0x01, 0xcf, 0xea, 0x41, 0x41, 0x40, 0xde, 0x5d, 0xae, 0x22, 0x23,
        0xb0, 0x03, 0x61, 0xa3, 0x96, 0x17, 0x7a, 0x9c, 0xb4, 0x10, 0xff, 0x61, 0xf2, 0x00, 0x15, 0xad]) \<rparr>"

section \<open>Numbers and strings of the gas computations\<close>

text \<open>
  A Python \<^verbatim>\<open>float\<close> is modelled by the rational number it holds (the floats
  \<^verbatim>\<open>inf\<close> and \<^verbatim>\<open>nan\<close> are outside the model). Every float operation
  is the exact operation followed by the rounding of IEEE 754, which is the field
  \<open>rnd\<close> of the platform: the theorems hold for every rounding function, so for
  the real one too. The other fields are library calls that the repository does not
  define:
  \<^item> \<open>py_float s\<close> is \<^verbatim>\<open>float(s)\<close>, \<open>None\<close> when it raises
    \<^verbatim>\<open>ValueError\<close>;
  \<^item> \<open>to_wei_gwei x\<close> is \<^verbatim>\<open>w3.to_wei(x, 'gwei')\<close> on a float, which
    raises \<^verbatim>\<open>ValueError\<close> when the result is out of range;
  \<^item> \<open>from_wei number k\<close> is \<^verbatim>\<open>w3.from_wei(number, unit)\<close>, a decimal,
    for the unit of \<open>10 ^ k\<close> wei (\<open>k = 9\<close> for gwei, \<open>18\<close> for ether); it
    raises when the number is out of range.
\<close>

record platform =
  rnd :: "rat \<Rightarrow> rat"
  py_float :: "string \<Rightarrow> rat option"
  to_wei_gwei :: "rat \<Rightarrow> exn + int"
  from_wei :: "int \<Rightarrow> nat \<Rightarrow> exn + rat"

text \<open>\<^verbatim>\<open>int(x)\<close> on a float: truncation towards zero.\<close>

definition py_int :: "rat \<Rightarrow> int" where
  "py_int x = (if 0 \<le> x then \<lfloor>x\<rfloor> else \<lceil>x\<rceil>)"

text \<open>\<^verbatim>\<open>n * x\<close> for an int \<open>n\<close> and a float \<open>x\<close>: \<open>n\<close> is converted first.\<close>

definition int_times_float :: "('a platform_scheme) \<Rightarrow> int \<Rightarrow> rat \<Rightarrow> rat" where
  "int_times_float p n x = rnd p (rnd p (of_int n) * x)"

text \<open>\<^verbatim>\<open>float(w3.from_wei(number, unit))\<close>: the decimal, rounded to a float.\<close>

definition float_from_wei :: "('a platform_scheme) \<Rightarrow> int \<Rightarrow> nat \<Rightarrow> exn + rat" where
  "float_from_wei p number k = (case from_wei p number k of Inl e \<Rightarrow> Inl e | Inr d \<Rightarrow> Inr (rnd p d))"

text \<open>
  Strings are lists of code points below 256. \<^verbatim>\<open>str.strip()\<close> removes the
  white space of Python at both ends; \<^verbatim>\<open>str.lower()\<close> is modelled on the
  ASCII letters, which is all that a comparison with \<^verbatim>\<open>'auto'\<close> can see.
\<close>

definition py_isspace :: "char \<Rightarrow> bool" where
  "py_isspace c = ((of_char c :: nat) \<in> {9, 10, 11, 12, 13, 28, 29, 30, 31, 32, 133, 160})"

definition py_strip :: "string \<Rightarrow> string" where
  "py_strip s = rev (dropWhile py_isspace (rev (dropWhile py_isspace s)))"

definition py_lower_char :: "char \<Rightarrow> char" where
  "py_lower_char c =
     (case map_of (zip ''ABCDEFGHIJKLMNOPQRSTUVWXYZ'' ''abcdefghijklmnopqrstuvwxyz'') c of
        None \<Rightarrow> c | Some d \<Rightarrow> d)"

definition py_lower :: "string \<Rightarrow> string" where
  "py_lower s = map py_lower_char s"

section \<open>config.py: the gas settings of EncryptumConfig\<close>

record config =
  gas_limit_buffer :: rat
  gas_price_buffer :: rat
  min_gas_price_gwei :: rat
  default_gas_limit :: int
  max_gas_limit :: int

text \<open>The defaults of the dataclass; a float literal is the float nearest to it.\<close>

definition default_config :: "('a platform_scheme) \<Rightarrow> config" where
  "default_config p = \<lparr>
     gas_limit_buffer = rnd p (12 / 10),
     gas_price_buffer = rnd p (11 / 10),
     min_gas_price_gwei = rnd p 1,
     default_gas_limit = 500000,
     max_gas_limit = 2000000 \<rparr>"

section \<open>gui\_app\_blockchain.py: BlockchainPanel.get\_manual\_gas\_price\<close>

text \<open>
  \<^verbatim>\<open>get_manual_gas_price()\<close> reads the entry \<^verbatim>\<open>gas_price_var\<close> (the argument
  \<open>var\<close>) and, in automatic mode, the gas price of the node (\<open>node\<close>: the answer
  of \<^verbatim>\<open>w3.eth.gas_price\<close>, an exception when the call fails). The handler of
  \<^verbatim>\<open>ValueError\<close> calls the method again; the call changes nothing, so the
  entry it reads is the same. The first argument is the number of frames left before
  the interpreter's recursion limit, at which a call raises \<^verbatim>\<open>RecursionError\<close>;
  that exception is not a \<^verbatim>\<open>ValueError\<close> and passes through the handlers.
\<close>

fun get_manual_gas_price ::
  "nat \<Rightarrow> ('a platform_scheme) \<Rightarrow> config \<Rightarrow> string \<Rightarrow> exn + int \<Rightarrow> exn + int" where
  "get_manual_gas_price 0 p cfg var node =
     Inl (Exn RecursionError ''maximum recursion depth exceeded'')"
| "get_manual_gas_price (Suc depth) p cfg var node =
     (let gas_price_str = py_strip var in
      if py_lower gas_price_str = ''auto'' \<or> gas_price_str = [] then
        (case node of
           Inl e \<Rightarrow> Inl e
         | Inr gas_price_wei \<Rightarrow>
            (let gas_price_wei' = py_int (int_times_float p gas_price_wei (gas_price_buffer cfg)) in
             case to_wei_gwei p (min_gas_price_gwei cfg) of
               Inl e \<Rightarrow> Inl e
             | Inr min_gas_wei \<Rightarrow>
                 Inr (if gas_price_wei' < min_gas_wei then min_gas_wei else gas_price_wei')))
      else
        (case py_float p gas_price_str of
           None \<Rightarrow> get_manual_gas_price depth p cfg var node
         | Some gas_price_gwei \<Rightarrow>
            (let gas_price_gwei' =
                   (if gas_price_gwei < min_gas_price_gwei cfg then min_gas_price_gwei cfg
                    else gas_price_gwei) in
             case to_wei_gwei p gas_price_gwei' of
               Inl e \<Rightarrow>
                 if class_of e = ValueError then get_manual_gas_price depth p cfg var node
                 else Inl e
             | Inr wei \<Rightarrow> Inr wei)))"

text \<open>The test the method makes on the entry: automatic mode.\<close>

definition is_auto :: "string \<Rightarrow> bool" where
  "is_auto var = (py_lower (py_strip var) = ''auto'' \<or> py_strip var = [])"

text \<open>
  A platform to run the definitions on: exact arithmetic (no rounding), a \<^verbatim>\<open>float()\<close> that reads the three strings the examples
  use, a \<^verbatim>\<open>to_wei\<close> that multiplies by \<open>10 ^ 9\<close>, and a
  \<^verbatim>\<open>from_wei\<close> that divides exactly and raises outside the range of an
  unsigned 256-bit integer.
\<close>

definition test_platform :: platform where
  "test_platform = \<lparr>
     rnd = (\<lambda>x. x),
     py_float = (\<lambda>s. if s = ''0.5'' then Some (1 / 2) else if s = ''25'' then Some 25
                     else if s = ''2.5'' then Some (5 / 2) else None),
     to_wei_gwei = (\<lambda>x. if x < 0 then Inl (Exn ValueError ''value must be between 1 and 2**256 - 1'')
                         else Inr \<lfloor>x * 10 ^ 9\<rfloor>),
     from_wei = (\<lambda>number k.
        if number < 0 \<or> 2 ^ 256 - 1 < number
        then Inl (Exn ValueError ''value must be between 1 and 2**256 - 1'')
        else Inr (of_int number / 10 ^ k)) \<rparr>"

section \<open>The rounding of IEEE 754\<close>

text \<open>
  The rounding of a rational number to the nearest \<^verbatim>\<open>float\<close> of Python (IEEE 754
  binary64, ties to even), on the numbers below the overflow threshold.
  \<open>bit_length\<close> is \<^verbatim>\<open>int.bit_length\<close>; \<open>floor_log2 a\<close> is the
  exponent \<open>e\<close> with \<open>2 ^ e \<le> a < 2 ^ (e + 1)\<close> of a positive \<open>a\<close>;
  the spacing of the floats around \<open>a\<close> is \<open>2 ^ (e - 52)\<close>, and
  \<open>2 ^ - 1074\<close> in the subnormal range; \<open>a\<close> is rounded to the nearest
  multiple of the spacing, and to the even one of two nearest.
\<close>

fun bit_length :: "nat \<Rightarrow> nat" where
  "bit_length n = (if n = 0 then 0 else Suc (bit_length (n div 2)))"

declare bit_length.simps [simp del]

definition floor_log2 :: "rat \<Rightarrow> int" where
  "floor_log2 a = (if 1 \<le> a then int (bit_length (nat \<lfloor>a\<rfloor>)) - 1
                   else - int (bit_length (nat (\<lceil>1 / a\<rceil> - 1))))"

definition pow2 :: "int \<Rightarrow> rat" where
  "pow2 n = (if 0 \<le> n then 2 ^ nat n else 1 / 2 ^ nat (- n))"

definition round_half_even :: "rat \<Rightarrow> int" where
  "round_half_even x =
     (let f = \<lfloor>x\<rfloor>; d = x - of_int f in
      if d < 1 / 2 then f else if 1 / 2 < d then f + 1 else if even f then f else f + 1)"

definition ieee_round :: "rat \<Rightarrow> rat" where
  "ieee_round x =
     (if x = 0 then 0 else
      let a = \<bar>x\<bar>;
          ulp = pow2 (max (floor_log2 a - 52) (- 1074));
          m = round_half_even (a / ulp)
      in sgn x * of_int m * ulp)"


section \<open>gui\_app\_blockchain.py: the file registry\<close>

text \<open>
  The registry is a Python dictionary from file ids to dictionaries, saved as JSON.
  A dictionary is a map from keys to values; \<^verbatim>\<open>d.update(e)\<close> and
  \<^verbatim>\<open>{**d, ...}\<close> are \<open>d ++ e\<close>, where the right side wins.
\<close>

datatype pyval = PStr string | PInt int | PFloat rat | PBool bool | PDict "(string \<times> pyval) list"

type_synonym dict = "string \<rightharpoonup> pyval"
type_synonym file_registry = "string \<rightharpoonup> dict"

text \<open>The truth value Python gives a value in a condition.\<close>

fun truthy :: "pyval \<Rightarrow> bool" where
  "truthy (PStr s) = (s \<noteq> [])"
| "truthy (PInt n) = (n \<noteq> 0)"
| "truthy (PFloat x) = (x \<noteq> 0)"
| "truthy (PBool b) = b"
| "truthy (PDict d) = (d \<noteq> [])"

text \<open>\<^verbatim>\<open>file_info.get('blockchain_pinned', False)\<close> as a condition.\<close>

definition blockchain_pinned :: "dict \<Rightarrow> bool" where
  "blockchain_pinned file_info =
     (case file_info ''blockchain_pinned'' of None \<Rightarrow> False | Some v \<Rightarrow> truthy v)"

text \<open>
  \<^verbatim>\<open>EncryptumGUI.upload_file_thread\<close>, without the status bar. \<open>ipfs\<close> is what
  \<^verbatim>\<open>self.ipfs.store_encrypted_file\<close> answers (a dictionary of content ids, or an
  exception) and \<open>now\<close> is \<^verbatim>\<open>datetime.now().isoformat()\<close>. The result is the
  file id handed to \<^verbatim>\<open>on_upload_success\<close>, or the exception handed to
  \<^verbatim>\<open>on_upload_error\<close>, with the registry after the call.
\<close>

definition upload_file_thread ::
  "('a crypto_lib_scheme) \<Rightarrow> nat \<Rightarrow> (string \<rightharpoonup> bytes) \<Rightarrow> bytes \<Rightarrow> bytes \<Rightarrow> exn + dict \<Rightarrow> string
     \<Rightarrow> string \<Rightarrow> string \<Rightarrow> file_registry \<Rightarrow> (exn + string) \<times> file_registry" where
  "upload_file_thread lib iterations fs urandom nonce ipfs now file_path password reg =
     (case encrypt_file lib iterations fs urandom nonce file_path password of
        Inl e \<Rightarrow> (Inl e, reg)
      | Inr encrypted_result \<Rightarrow>
         (case ipfs of
            Inl e \<Rightarrow> (Inl e, reg)
          | Inr ipfs_result \<Rightarrow>
             (let file_id = take 16 (original_hash encrypted_result) in
              (Inr file_id,
               reg(file_id \<mapsto> ipfs_result ++
                 [''original_name'' \<mapsto> PStr (original_name encrypted_result),
                  ''original_size'' \<mapsto> PInt (int (original_size encrypted_result)),
                  ''upload_date'' \<mapsto> PStr now,
                  ''file_hash'' \<mapsto> PStr (original_hash encrypted_result),
                  ''blockchain_pinned'' \<mapsto> PBool False])))))"

text \<open>
  \<^verbatim>\<open>EncryptumGUI.update_file_pinning_status\<close>, the callback of the panel. For
  an id of the registry it updates the record, saves the registry
  (\<^verbatim>\<open>save_registry\<close> catches its own exceptions), and then redraws the list
  with \<^verbatim>\<open>refresh_file_list\<close> and sets the status bar. These last two calls
  can raise (\<^verbatim>\<open>info['file_cid']\<close> on a record without that key, a widget
  call from the worker thread); \<open>refresh\<close> is what they raise, \<open>None\<close> when
  they return. The result is the exception that leaves the callback, if any, with the
  registry after the call: the record is updated before anything can raise.
\<close>

definition update_file_pinning_status ::
  "exn option \<Rightarrow> string \<Rightarrow> dict \<Rightarrow> file_registry \<Rightarrow> exn option \<times> file_registry" where
  "update_file_pinning_status refresh file_id pin_info reg =
     (case reg file_id of
        None \<Rightarrow> (None, reg)
      | Some file_info \<Rightarrow> (refresh, reg(file_id \<mapsto> file_info ++ pin_info)))"

text \<open>
  \<^verbatim>\<open>EncryptumGUI.delete_file\<close>: the loop over the selected rows. Each row comes
  with the answer the user gives if the dialog about a pinned file is shown. The count
  of deleted files is returned with the registry.
\<close>

fun delete_file :: "(string \<times> bool) list \<Rightarrow> file_registry \<Rightarrow> nat \<Rightarrow> file_registry \<times> nat" where
  "delete_file [] reg deleted = (reg, deleted)"
| "delete_file ((file_id, answer) # selection) reg deleted =
     (case reg file_id of
        None \<Rightarrow> delete_file selection reg deleted
      | Some file_info \<Rightarrow>
          if blockchain_pinned file_info \<and> \<not> answer then delete_file selection reg deleted
          else delete_file selection (reg(file_id := None)) (deleted + 1))"

text \<open>
  The invariant of the registry: a record that reads as pinned has a transaction hash
  under \<^verbatim>\<open>pin_tx\<close>.
\<close>

definition registry_inv :: "file_registry \<Rightarrow> bool" where
  "registry_inv reg =
     (\<forall>file_id file_info. reg file_id = Some file_info \<longrightarrow> blockchain_pinned file_info \<longrightarrow>
        (\<exists>tx. file_info ''pin_tx'' = Some (PStr tx)))"

section \<open>gui\_app\_blockchain.py: BlockchainPanel.pin\_files and execute\_pinning\<close>

text \<open>
  An entry of \<^verbatim>\<open>selected_files\<close>, as \<^verbatim>\<open>on_file_selection_changed\<close> builds
  it: a dictionary with exactly these five keys (the prefix \<open>sel\<close> keeps the field
  names apart from those of the encryption result).
\<close>

record selected_file =
  sel_file_id :: string
  sel_file_cid :: string
  sel_metadata_cid :: string
  sel_original_size :: int
  sel_original_name :: string

record receipt =
  status :: int
  gasUsed :: int

text \<open>
  What the node, the signer, the clock and the user interface answer while one file is
  processed, in the order of the calls; an exception stands for a call that raises. The
  last field is what the user interface raises when the registry callback redraws the
  list of files (\<open>None\<close>: nothing). The theorems hold for every list of answers,
  so for every behaviour of the node.
\<close>

record file_rpc =
  rpc_calculatePinCost :: "exn + int"
  rpc_get_transaction_count :: "exn + int"
  rpc_gas_price_var :: string
  rpc_gas_price :: "exn + int"
  rpc_estimate_gas :: "exn + int"
  rpc_chain_id :: "exn + int"
  rpc_build_transaction :: "exn option"
  rpc_sign_transaction :: "exn + bytes"
  rpc_send_raw_transaction :: "exn + string"
  rpc_wait_for_transaction_receipt :: "exn + receipt"
  rpc_now :: string
  rpc_refresh_file_list :: "exn option"

text \<open>The dictionary \<^verbatim>\<open>tx_params\<close> (the sender is the panel's account).\<close>

record tx_params =
  tx_value :: int
  tx_gas :: int
  tx_gasPrice :: int
  tx_nonce :: int
  tx_chainId :: int

text \<open>
  A registry callback is any callable handed to the panel: called with a file id and a
  dictionary, it changes the registry and returns, or raises. In the model it gets the
  answer of the user interface first and returns the exception it raises, if any, with
  the registry it leaves.
\<close>

type_synonym registry_callback =
  "exn option \<Rightarrow> string \<Rightarrow> dict \<Rightarrow> file_registry \<Rightarrow> exn option \<times> file_registry"

text \<open>
  The state of the panel that a run reads: the duration in days, the network name and
  the callback into the registry (\<^verbatim>\<open>update_file_pinning_status\<close> in the
  application, \<open>None\<close> when the panel was made without one).
\<close>

record panel =
  duration_var :: int
  network_var :: string
  file_registry_callback :: "registry_callback option"

text \<open>
  What a run does that can be seen from outside, in order. The call of the registry
  callback is recorded with its two arguments and the exception it raised, if any.
\<close>

datatype event =
  LogPinning nat nat string
  | BuildTransaction tx_params
  | SignTransaction
  | SendRawTransaction bytes
  | RegistryCallback string dict "exn option"

datatype outcome = Pinned dict | TxFailed | Raised exn

text \<open>
  One call inside the \<^verbatim>\<open>try\<close> of the loop: if it raises, the body ends there
  with the events \<open>evs\<close> caused so far; otherwise the body goes on with the result.
\<close>

definition try_step ::
  "event list \<Rightarrow> exn + 'a \<Rightarrow> ('a \<Rightarrow> event list \<times> outcome) \<Rightarrow> event list \<times> outcome" where
  "try_step evs call rest = (case call of Inl e \<Rightarrow> (evs, Raised e) | Inr v \<Rightarrow> rest v)"

text \<open>
  The gas limit of a transaction, from the answer of \<^verbatim>\<open>estimate_gas\<close>: the
  inner \<^verbatim>\<open>try\<close> of the loop, whose handler takes the default limit.
\<close>

definition gas_limit_of :: "('a platform_scheme) \<Rightarrow> config \<Rightarrow> exn + int \<Rightarrow> int" where
  "gas_limit_of p cfg estimate =
     (case estimate of
        Inl gas_error \<Rightarrow> default_gas_limit cfg
      | Inr estimated_gas \<Rightarrow>
          let gas_limit = py_int (int_times_float p estimated_gas (gas_limit_buffer cfg)) in
          if gas_limit > max_gas_limit cfg then max_gas_limit cfg else gas_limit)"

text \<open>
  The body of the \<^verbatim>\<open>try\<close> inside the loop of \<^verbatim>\<open>pin_thread\<close>, for one file:
  the events it causes and how it ends. \<open>Pinned\<close> carries the dictionary handed to
  the registry callback; \<open>TxFailed\<close> is a receipt whose status is not 1;
  \<open>Raised\<close> is an exception, which the handler of the loop catches. The steps
  are those of the source, in its order: the cost of the file, the nonce, the gas
  price (and its value in Gwei for the log), the gas limit, the chain id, the build,
  the cost for the log, the signature, the submission, the receipt.
\<close>

definition pin_file ::
  "('a platform_scheme) \<Rightarrow> config \<Rightarrow> panel \<Rightarrow> nat \<Rightarrow> selected_file \<Rightarrow> file_rpc \<Rightarrow> event list \<times> outcome" where
  "pin_file p cfg pnl depth file rpc =
     try_step [] (rpc_calculatePinCost rpc) (\<lambda>cost_wei.
     try_step [] (rpc_get_transaction_count rpc) (\<lambda>nonce.
     try_step [] (get_manual_gas_price depth p cfg (rpc_gas_price_var rpc) (rpc_gas_price rpc))
       (\<lambda>gas_price_wei.
     try_step [] (float_from_wei p gas_price_wei 9) (\<lambda>gas_price_gwei.
     let gas_limit = gas_limit_of p cfg (rpc_estimate_gas rpc) in
     try_step [] (rpc_chain_id rpc) (\<lambda>chain.
     let params = \<lparr> tx_value = cost_wei, tx_gas = gas_limit, tx_gasPrice = gas_price_wei,
                     tx_nonce = nonce, tx_chainId = chain \<rparr> in
     try_step [] (case rpc_build_transaction rpc of Some e \<Rightarrow> Inl e | None \<Rightarrow> Inr ()) (\<lambda>_.
     let built = [BuildTransaction params] in
     try_step built (float_from_wei p (cost_wei + gas_limit * gas_price_wei) 18) (\<lambda>tx_cost_eth.
     try_step built (rpc_sign_transaction rpc) (\<lambda>raw_tx.
     try_step (built @ [SignTransaction]) (rpc_send_raw_transaction rpc) (\<lambda>tx_hash.
     let sent = built @ [SignTransaction, SendRawTransaction raw_tx] in
     try_step sent (rpc_wait_for_transaction_receipt rpc) (\<lambda>rcpt.
     if status rcpt = 1 then
       try_step sent (float_from_wei p (gasUsed rcpt * gas_price_wei) 18) (\<lambda>actual_gas_cost.
         (sent, Pinned
            [''blockchain_pinned'' \<mapsto> PBool True,
             ''pin_tx'' \<mapsto> PStr tx_hash,
             ''pin_date'' \<mapsto> PStr (rpc_now rpc),
             ''pin_duration_days'' \<mapsto> PInt (duration_var pnl),
             ''pin_network'' \<mapsto> PStr (network_var pnl),
             ''pin_gas_used'' \<mapsto> PInt (gasUsed rcpt),
             ''pin_gas_price_gwei'' \<mapsto> PFloat gas_price_gwei]))
     else (sent, TxFailed)))))))))))"

text \<open>The variables of \<^verbatim>\<open>pin_thread\<close>, the registry and the events so far.\<close>

record run_state =
  successful :: nat
  failed :: nat
  registry :: file_registry
  trace :: "event list"

text \<open>
  One turn of the loop: the log line, the body, then the counters. A receipt of
  status 1 is counted first (\<^verbatim>\<open>successful += 1\<close>) and the file is then handed
  to the callback, still inside the \<^verbatim>\<open>try\<close> of the loop: an exception that
  leaves the callback reaches the handler, which counts the file again
  (\<^verbatim>\<open>failed += 1\<close>) and goes on. Anything else is counted as failed once and
  the loop goes on. The calls of \<^verbatim>\<open>self.log\<close> are taken to return.
\<close>

definition pin_step ::
  "('a platform_scheme) \<Rightarrow> config \<Rightarrow> panel \<Rightarrow> nat \<Rightarrow> nat \<Rightarrow> nat \<Rightarrow> selected_file \<Rightarrow> file_rpc
     \<Rightarrow> run_state \<Rightarrow> run_state" where
  "pin_step p cfg pnl depth n i file rpc st =
     (let started = LogPinning (i + 1) n (sel_original_name file) in
      case pin_file p cfg pnl depth file rpc of
        (evs, Pinned pin_info) \<Rightarrow>
          (case file_registry_callback pnl of
             None \<Rightarrow>
               st \<lparr> successful := successful st + 1, trace := trace st @ started # evs \<rparr>
           | Some callback \<Rightarrow>
               (case callback (rpc_refresh_file_list rpc) (sel_file_id file) pin_info (registry st) of
                  (raised, reg) \<Rightarrow>
                    st \<lparr> successful := successful st + 1,
                         failed := failed st + (case raised of None \<Rightarrow> 0 | Some e \<Rightarrow> 1),
                         registry := reg,
                         trace := trace st @ started # evs
                                    @ [RegistryCallback (sel_file_id file) pin_info raised] \<rparr>))
      | (evs, TxFailed) \<Rightarrow> st \<lparr> failed := failed st + 1, trace := trace st @ started # evs \<rparr>
      | (evs, Raised e) \<Rightarrow> st \<lparr> failed := failed st + 1, trace := trace st @ started # evs \<rparr>)"

fun pin_loop ::
  "('a platform_scheme) \<Rightarrow> config \<Rightarrow> panel \<Rightarrow> nat \<Rightarrow> nat \<Rightarrow> nat \<Rightarrow> (selected_file \<times> file_rpc) list
     \<Rightarrow> run_state \<Rightarrow> run_state" where
  "pin_loop p cfg pnl depth n i [] st = st"
| "pin_loop p cfg pnl depth n i ((file, rpc) # rest) st =
     pin_loop p cfg pnl depth n (Suc i) rest (pin_step p cfg pnl depth n i file rpc st)"

text \<open>
  \<^verbatim>\<open>execute_pinning\<close>: the loop over \<^verbatim>\<open>selected_files\<close>, each file with the
  answers it meets, from both counters at zero.
\<close>

definition execute_pinning ::
  "('a platform_scheme) \<Rightarrow> config \<Rightarrow> panel \<Rightarrow> nat \<Rightarrow> (selected_file \<times> file_rpc) list
     \<Rightarrow> file_registry \<Rightarrow> run_state" where
  "execute_pinning p cfg pnl depth batch reg =
     pin_loop p cfg pnl depth (length batch) 0 batch
       \<lparr> successful = 0, failed = 0, registry = reg, trace = [] \<rparr>"

text \<open>
  What the node and the user answer before the run, in \<^verbatim>\<open>pin_files\<close>: the
  balance, the cost of the whole selection, the gas price, and the confirmation dialog.
\<close>

record preflight =
  pre_get_balance :: "exn + int"
  pre_calculatePinCost :: "exn + int"
  pre_gas_price_var :: string
  pre_gas_price :: "exn + int"
  pre_askyesno :: bool

datatype pin_files_result =
  NoFiles | BalanceRaised exn | EstimateFailed exn | InsufficientBalance | Declined
  | Executed run_state

text \<open>
  \<^verbatim>\<open>pin_files\<close>. The balance is read before the \<^verbatim>\<open>try\<close>, so an exception
  there leaves the method; one inside the \<^verbatim>\<open>try\<close> ends in the error dialog.
\<close>

definition pin_files ::
  "('a platform_scheme) \<Rightarrow> config \<Rightarrow> panel \<Rightarrow> nat \<Rightarrow> preflight \<Rightarrow> (selected_file \<times> file_rpc) list
     \<Rightarrow> file_registry \<Rightarrow> pin_files_result" where
  "pin_files p cfg pnl depth pre batch reg =
     (if batch = [] then NoFiles else
      case pre_get_balance pre of Inl e \<Rightarrow> BalanceRaised e | Inr balance_wei \<Rightarrow>
      case float_from_wei p balance_wei 18 of Inl e \<Rightarrow> BalanceRaised e | Inr balance_eth \<Rightarrow>
      let total_size = sum_list (map (sel_original_size \<circ> fst) batch);
          duration_seconds = duration_var pnl * 86400 in
      case pre_calculatePinCost pre of Inl e \<Rightarrow> EstimateFailed e | Inr cost_wei \<Rightarrow>
      case float_from_wei p cost_wei 18 of Inl e \<Rightarrow> EstimateFailed e | Inr cost_eth \<Rightarrow>
      case get_manual_gas_price depth p cfg (pre_gas_price_var pre) (pre_gas_price pre) of
        Inl e \<Rightarrow> EstimateFailed e | Inr gas_price_wei \<Rightarrow>
      case float_from_wei p gas_price_wei 9 of Inl e \<Rightarrow> EstimateFailed e | Inr gas_price_gwei \<Rightarrow>
      let estimated_gas_per_file = 350000;
          total_gas = estimated_gas_per_file * int (length batch) in
      case float_from_wei p (total_gas * gas_price_wei) 18 of
        Inl e \<Rightarrow> EstimateFailed e | Inr gas_cost_eth \<Rightarrow>
      let total_cost = rnd p (cost_eth + gas_cost_eth) in
      if balance_eth < rnd p (total_cost * rnd p (11 / 10)) then InsufficientBalance
      else if \<not> pre_askyesno pre then Declined
      else Executed (execute_pinning p cfg pnl depth batch reg))"

text \<open>The events and the registry that \<^verbatim>\<open>pin_files\<close> leaves behind.\<close>

definition events_of :: "pin_files_result \<Rightarrow> event list" where
  "events_of r = (case r of Executed st \<Rightarrow> trace st | _ \<Rightarrow> [])"


text \<open>
  Projections of a trace: the files of the log lines and of the callbacks, the
  exceptions that callbacks raised, and the gas of the transactions built.
\<close>

fun log_lines :: "event list \<Rightarrow> (nat \<times> nat \<times> string) list" where
  "log_lines [] = []"
| "log_lines (LogPinning i n name # es) = (i, n, name) # log_lines es"
| "log_lines (_ # es) = log_lines es"

fun callback_ids :: "event list \<Rightarrow> string list" where
  "callback_ids [] = []"
| "callback_ids (RegistryCallback file_id info raised # es) = file_id # callback_ids es"
| "callback_ids (_ # es) = callback_ids es"

fun callback_raised :: "event list \<Rightarrow> exn list" where
  "callback_raised [] = []"
| "callback_raised (RegistryCallback file_id info (Some e) # es) = e # callback_raised es"
| "callback_raised (_ # es) = callback_raised es"


text \<open>How the body ends for a file of the batch.\<close>

definition is_pinned :: "outcome \<Rightarrow> bool" where
  "is_pinned out = (case out of Pinned info \<Rightarrow> True | _ \<Rightarrow> False)"

definition file_pinned ::
  "('a platform_scheme) \<Rightarrow> config \<Rightarrow> panel \<Rightarrow> nat \<Rightarrow> selected_file \<times> file_rpc \<Rightarrow> bool" where
  "file_pinned p cfg pnl depth fr = is_pinned (snd (pin_file p cfg pnl depth (fst fr) (snd fr)))"

section \<open>Examples to run the definitions on\<close>

text \<open>
  A node that answers every call, with a receipt of status 1; then the same node with
  a receipt of status 0, with a failing gas estimation, with an estimate above the
  maximum, and with a submission that the node refuses.
\<close>

definition ok_rpc :: file_rpc where
  "ok_rpc = \<lparr>
     rpc_calculatePinCost = Inr 1000000000000000,
     rpc_get_transaction_count = Inr 7,
     rpc_gas_price_var = ''Auto'',
     rpc_gas_price = Inr 20000000000,
     rpc_estimate_gas = Inr 100000,
     rpc_chain_id = Inr 11155111,
     rpc_build_transaction = None,
     rpc_sign_transaction = Inr [0xf8, 0x6c],
     rpc_send_raw_transaction = Inr ''ab12'',
     rpc_wait_for_transaction_receipt = Inr \<lparr> status = 1, gasUsed = 90000 \<rparr>,
     rpc_now = ''2025-01-01T00:00:00'',
     rpc_refresh_file_list = None \<rparr>"

definition reverted_rpc :: file_rpc where
  "reverted_rpc =
     ok_rpc \<lparr> rpc_wait_for_transaction_receipt := Inr \<lparr> status = 0, gasUsed = 90000 \<rparr> \<rparr>"

definition no_estimate_rpc :: file_rpc where
  "no_estimate_rpc = ok_rpc \<lparr> rpc_estimate_gas := Inl (Exn RpcError ''execution reverted'') \<rparr>"

definition high_estimate_rpc :: file_rpc where
  "high_estimate_rpc = ok_rpc \<lparr> rpc_estimate_gas := Inr 3000000 \<rparr>"

definition refused_rpc :: file_rpc where
  "refused_rpc =
     ok_rpc \<lparr> rpc_send_raw_transaction := Inl (Exn RpcError ''nonce too low'') \<rparr>"

text \<open>
  The node answers every call and the receipt has status 1, but the redraw of the list
  inside the registry callback raises.
\<close>

definition refresh_error_rpc :: file_rpc where
  "refresh_error_rpc = ok_rpc \<lparr> rpc_refresh_file_list := Some (Exn RuntimeError ''main thread is not in main loop'') \<rparr>"

definition test_panel :: panel where
  "test_panel = \<lparr> duration_var = 30, network_var = ''sepolia'',
                   file_registry_callback = Some update_file_pinning_status \<rparr>"

definition file_a :: selected_file where
  "file_a = \<lparr> sel_file_id = ''ba7816bf8f01cfea'', sel_file_cid = ''QmA'', sel_metadata_cid = ''QmMA'',
               sel_original_size = 3, sel_original_name = ''a.txt'' \<rparr>"

definition file_b :: selected_file where
  "file_b = \<lparr> sel_file_id = ''0123456789abcdef'', sel_file_cid = ''QmB'', sel_metadata_cid = ''QmMB'',
               sel_original_size = 2048, sel_original_name = ''b.bin'' \<rparr>"

definition file_c :: selected_file where
  "file_c = \<lparr> sel_file_id = ''fedcba9876543210'', sel_file_cid = ''QmC'', sel_metadata_cid = ''QmMC'',
               sel_original_size = 77, sel_original_name = ''c.pdf'' \<rparr>"

text \<open>
  Before the run: a balance of 1 ether, a cost of 0.95 ether for the selection, the
  automatic gas price on a node price of 20 Gwei, and a user who confirms.
\<close>

definition test_preflight :: preflight where
  "test_preflight = \<lparr>
     pre_get_balance = Inr 1000000000000000000,
     pre_calculatePinCost = Inr 950000000000000000,
     pre_gas_price_var = ''Auto'',
     pre_gas_price = Inr 20000000000,
     pre_askyesno = True \<rparr>"


text \<open>
  A registry with one record, pinned, under the id that the example library gives
  every file; and what the store answers to an upload.
\<close>

definition pinned_record :: dict where
  "pinned_record =
     [''file_cid'' \<mapsto> PStr ''QmOld'', ''metadata_cid'' \<mapsto> PStr ''QmMOld'',
      ''original_name'' \<mapsto> PStr ''old.txt'', ''original_size'' \<mapsto> PInt 3,
      ''upload_date'' \<mapsto> PStr ''2024-12-01T10:00:00'',
      ''file_hash'' \<mapsto> PStr ''ba7816bf8f01cfea414140de5dae2223b00361a396177a9cb410ff61f20015ad'',
      ''blockchain_pinned'' \<mapsto> PBool True, ''pin_tx'' \<mapsto> PStr ''ab12'']"

definition test_registry :: file_registry where
  "test_registry = [''ba7816bf8f01cfea'' \<mapsto> pinned_record]"

definition test_ipfs_result :: dict where
  "test_ipfs_result =
     [''file_cid'' \<mapsto> PStr ''QmNew'', ''metadata_cid'' \<mapsto> PStr ''QmMNew'',
      ''gateway_url'' \<mapsto> PStr ''https://ipfs.io/ipfs/QmNew'',
      ''metadata_gateway_url'' \<mapsto> PStr ''https://ipfs.io/ipfs/QmMNew'',
      ''ipfs_urls'' \<mapsto> PDict [(''file'', PStr ''ipfs://QmNew''), (''metadata'', PStr ''ipfs://QmMNew'')]]"

section \<open>Properties of encryption.py\<close>

lemma toy_lib_contract: "fernet_contract toy_lib"
proof -
  have "length (take 32 (pw @ s @ replicate 32 (0 :: byte))) = 32" for pw s :: bytes
    by (simp add: min_def)
  moreover have "take (length f) (f @ data) = f" for f data :: bytes
    by simp
  ultimately show ?thesis
    by (simp add: fernet_contract_def toy_lib_def del: length_take take_append)
qed

lemma hex_digit_table:
  "\<forall>n \<in> set [0..<16]. (hex_digit n = hex_digit_upper n) = (n < 10)"
  by code_simp

lemma hex_digit_upper_iff: "n < 16 \<Longrightarrow> (hex_digit n = hex_digit_upper n) = (n < 10)"
  using hex_digit_table by simp

lemma byte_digits_lt16: "unat (b :: byte) div 16 < 16" "unat b mod 16 < 16"
proof -
  have "unat b < 256" using unsigned_less [of b, where ?'a = nat] by simp
  then show "unat b div 16 < 16" by simp
  show "unat b mod 16 < 16" by simp
qed

lemma hex_of_upper_eq_iff:
  "(hex_of hex_digit bs = hex_of hex_digit_upper bs) = (\<forall>b \<in> set bs. \<not> has_hex_letter b)"
proof (induction bs)
  case Nil
  then show ?case by (simp add: hex_of_def)
next
  case (Cons b bs)
  have hd: "(hex_digit (unat b div 16) = hex_digit_upper (unat b div 16)
             \<and> hex_digit (unat b mod 16) = hex_digit_upper (unat b mod 16))
            = (\<not> has_hex_letter b)"
    by (simp add: hex_digit_upper_iff byte_digits_lt16 has_hex_letter_def not_le)
  from Cons hd show ?case
    by (auto simp: hex_of_def)
qed


lemma generate_key_salt:
  "generate_key_from_password lib n u pw sa = Inr (k, s) \<Longrightarrow>
   generate_key_from_password lib n u' pw (Some s) = Inr (k, s)"
  by (auto simp: generate_key_from_password_def Let_def split: sum.splits option.splits)

text \<open>
  \<^verbatim>\<open>decrypt_file\<close> adds no judgement of its own to that of the library: it
  returns data only when \<^verbatim>\<open>Fernet.decrypt\<close> returned that data under the key
  derived from the password and the salt, and it raises whenever the library does.
\<close>

lemma decrypt_file_follows_library:
  "decrypt_file lib iterations token password s = Inr data \<longleftrightarrow>
     (\<exists>key f. generate_key_from_password lib iterations [] password (Some s) = Inr (key, s)
        \<and> Fernet lib key = Inr f \<and> fernet_decrypt lib f token = Inr data)"
  by (auto simp: decrypt_file_def reraise_def generate_key_from_password_def
           split: sum.splits prod.splits)

text \<open>
  C1. Under the contract of the library, for every file with non-empty content \<open>P\<close>
  and every password: whatever \<^verbatim>\<open>encrypt_file\<close> returns, \<^verbatim>\<open>decrypt_file\<close>
  on the returned ciphertext, the same password and the returned salt gives exactly
  \<open>P\<close>; and \<^verbatim>\<open>encrypt_file\<close> does return a result whenever the password can be
  encoded.
\<close>

theorem encrypt_decrypt_round_trip:
  assumes contract: "fernet_contract lib"
    and content: "fs file_path = Some P"
    and nonempty: "P \<noteq> []"
  shows "(\<forall>r. encrypt_file lib iterations fs urandom nonce file_path password = Inr r \<longrightarrow>
            decrypt_file lib iterations (encrypted_data r) password (salt r) = Inr P)
         \<and> ((\<exists>pw. str_encode lib password = Inr pw) \<longrightarrow>
            (\<exists>r. encrypt_file lib iterations fs urandom nonce file_path password = Inr r))"
proof (intro conjI allI impI)
  fix r
  assume enc: "encrypt_file lib iterations fs urandom nonce file_path password = Inr r"
  from enc content nonempty obtain key s f where
    key: "generate_key_from_password lib iterations urandom password None = Inr (key, s)"
    and f: "Fernet lib key = Inr f"
    and r: "r = \<lparr> encrypted_data = fernet_encrypt lib f nonce P, salt = s,
                 original_hash = hexdigest lib P, original_name = basename file_path,
                 original_size = length P,
                 encrypted_size = length (fernet_encrypt lib f nonce P) \<rparr>"
    by (auto simp: encrypt_file_def reraise_def Let_def split: sum.splits prod.splits)
  from generate_key_salt [OF key]
  have key': "generate_key_from_password lib iterations [] password (Some s) = Inr (key, s)" .
  from contract have "fernet_decrypt lib f (fernet_encrypt lib f nonce P) = Inr P"
    by (simp add: fernet_contract_def)
  with key' f r show "decrypt_file lib iterations (encrypted_data r) password (salt r) = Inr P"
    by (simp add: decrypt_file_def reraise_def)
next
  assume "\<exists>pw. str_encode lib password = Inr pw"
  then obtain pw where pw: "str_encode lib password = Inr pw" ..
  from contract have "length (pbkdf2_derive lib iterations urandom pw) = 32"
    by (simp add: fernet_contract_def)
  with contract obtain f where
    "Fernet lib (urlsafe_b64encode lib (pbkdf2_derive lib iterations urandom pw)) = Inr f"
    unfolding fernet_contract_def by blast
  with pw content nonempty
  show "\<exists>r. encrypt_file lib iterations fs urandom nonce file_path password = Inr r"
    by (simp add: encrypt_file_def reraise_def generate_key_from_password_def Let_def)
qed

theorem encrypt_decrypt_round_trip_witness:
  "fernet_contract toy_lib \<and>
   (\<exists>r. encrypt_file toy_lib 100000 [''/tmp/a.txt'' \<mapsto> [1, 2, 3]] [7, 7] [9] ''/tmp/a.txt'' ''pw1'' = Inr r
       \<and> decrypt_file toy_lib 100000 (encrypted_data r) ''pw1'' (salt r) = Inr [1, 2, 3])"
proof -
  have enc: "str_encode toy_lib ''pw1'' = Inr (map (\<lambda>c. of_nat (of_char c)) ''pw1'')"
    by (simp add: toy_lib_def)
  let ?fs = "[''/tmp/a.txt'' \<mapsto> [1, 2, 3 :: byte]]"
  have "(\<forall>r. encrypt_file toy_lib 100000 ?fs [7, 7] [9] ''/tmp/a.txt'' ''pw1'' = Inr r \<longrightarrow>
            decrypt_file toy_lib 100000 (encrypted_data r) ''pw1'' (salt r) = Inr [1, 2, 3])
         \<and> ((\<exists>pw. str_encode toy_lib ''pw1'' = Inr pw) \<longrightarrow>
            (\<exists>r. encrypt_file toy_lib 100000 ?fs [7, 7] [9] ''/tmp/a.txt'' ''pw1'' = Inr r))"
    by (rule encrypt_decrypt_round_trip [where P = "[1, 2, 3]"]) (simp_all add: toy_lib_contract)
  with enc toy_lib_contract show ?thesis by blast
qed

text \<open>
  C10. \<^verbatim>\<open>verify_file_integrity\<close> is the equality of two strings: it accepts the
  lowercase \<^verbatim>\<open>hexdigest()\<close> of the data, and it accepts the same digest written
  in upper case only when no byte of the digest has a letter among its two digits, so
  it rejects the uppercase form of every digest that has one.
\<close>

theorem verify_file_integrity_case_sensitive:
  "verify_file_integrity lib P h = (hexdigest lib P = h)
   \<and> verify_file_integrity lib P (hexdigest lib P)
   \<and> verify_file_integrity lib P (hexdigest_upper lib P)
       = (\<forall>b \<in> set (sha256_digest lib P). \<not> has_hex_letter b)"
  by (simp add: verify_file_integrity_def hexdigest_def hexdigest_upper_def hex_of_upper_eq_iff)

theorem verify_file_integrity_case_sensitive_witness:
  "verify_file_integrity toy_lib [0x61, 0x62, 0x63]
     ''ba7816bf8f01cfea414140de5dae2223b00361a396177a9cb410ff61f20015ad''
   \<and> \<not> verify_file_integrity toy_lib [0x61, 0x62, 0x63]
     ''BA7816BF8F01CFEA414140DE5DAE2223B00361A396177A9CB410FF61F20015AD''"
proof -
  have lower: "hexdigest toy_lib [0x61, 0x62, 0x63]
      = ''ba7816bf8f01cfea414140de5dae2223b00361a396177a9cb410ff61f20015ad''"
    by (simp add: hexdigest_def hex_of_def hex_digit_def toy_lib_def)
  have upper: "hexdigest_upper toy_lib [0x61, 0x62, 0x63]
      = ''BA7816BF8F01CFEA414140DE5DAE2223B00361A396177A9CB410FF61F20015AD''"
    by (simp add: hexdigest_upper_def hex_of_def hex_digit_upper_def toy_lib_def)
  have letter: "\<not> (\<forall>b \<in> set (sha256_digest toy_lib [0x61, 0x62, 0x63]). \<not> has_hex_letter b)"
    by (simp add: toy_lib_def has_hex_letter_def)
  from verify_file_integrity_case_sensitive [of toy_lib "[0x61, 0x62, 0x63]"
      "''ba7816bf8f01cfea414140de5dae2223b00361a396177a9cb410ff61f20015ad''"]
    lower upper letter
  show ?thesis by simp
qed

section \<open>Properties of get\_manual\_gas\_price\<close>



lemma get_manual_gas_price_auto:
  assumes "is_auto var" "node = Inr gp" "to_wei_gwei p (min_gas_price_gwei cfg) = Inr m"
  shows "get_manual_gas_price (Suc d) p cfg var node
           = Inr (max (py_int (int_times_float p gp (gas_price_buffer cfg))) m)"
  using assms by (auto simp: is_auto_def Let_def max_def)


lemma is_auto_examples:
  "is_auto ''Auto''" "is_auto ''auto''" "is_auto ''  ''" "\<not> is_auto ''abc''" "\<not> is_auto ''0.5''"
  "py_strip ''abc'' = ''abc''" "py_strip ''0.5'' = ''0.5''"
  by (simp_all add: is_auto_def py_strip_def py_lower_def py_lower_char_def py_isspace_def)




text \<open>
  C6 fails on the code. For an entry that is not automatic and that \<^verbatim>\<open>float()\<close>
  rejects, the handler calls the method again on the same entry, and so on until the
  recursion limit: whatever the limit, the call raises \<^verbatim>\<open>RecursionError\<close> and
  never returns the automatic price.
\<close>

theorem get_manual_gas_price_invalid_entry:
  assumes "\<not> is_auto var" "py_float p (py_strip var) = None"
  shows "get_manual_gas_price depth p cfg var node
           = Inl (Exn RecursionError ''maximum recursion depth exceeded'')"
  using assms by (induction depth) (auto simp: is_auto_def Let_def)

theorem get_manual_gas_price_invalid_entry_witness:
  "get_manual_gas_price 1000 test_platform (default_config test_platform) ''abc'' (Inr 20000000000)
     = Inl (Exn RecursionError ''maximum recursion depth exceeded'')"
proof -
  have "py_float test_platform (py_strip ''abc'') = None"
    by (simp add: is_auto_examples test_platform_def)
  with is_auto_examples(4) show ?thesis
    by (rule get_manual_gas_price_invalid_entry)
qed

section \<open>Properties of execute\_pinning\<close>

lemma log_lines_append: "log_lines (a @ b) = log_lines a @ log_lines b"
  by (induction a rule: log_lines.induct) simp_all

lemma callback_ids_append: "callback_ids (a @ b) = callback_ids a @ callback_ids b"
  by (induction a rule: callback_ids.induct) simp_all

lemma callback_raised_append:
  "callback_raised (a @ b) = callback_raised a @ callback_raised b"
  by (induction a rule: callback_raised.induct) simp_all

lemma pin_file_events:
  "log_lines (fst (pin_file p cfg pnl depth file rpc)) = []"
  "callback_ids (fst (pin_file p cfg pnl depth file rpc)) = []"
  "callback_raised (fst (pin_file p cfg pnl depth file rpc)) = []"
  by (simp_all add: pin_file_def try_step_def Let_def split: sum.splits option.splits)

lemma pin_file_pin_tx:
  "pin_file p cfg pnl depth file rpc = (evs, Pinned info) \<Longrightarrow>
     \<exists>tx. info ''pin_tx'' = Some (PStr tx)"
  by (auto simp: pin_file_def try_step_def Let_def
           split: sum.splits option.splits if_splits)

lemma pin_step_successful:
  "successful (pin_step p cfg pnl depth n i f rpc st)
     = successful st + (if file_pinned p cfg pnl depth (f, rpc) then 1 else 0)"
  by (cases "pin_file p cfg pnl depth f rpc")
     (simp add: pin_step_def Let_def file_pinned_def is_pinned_def
           split: outcome.splits option.splits prod.splits)

text \<open>
  The counter of failures grows by one for a file that is not pinned, and by one for a
  callback that raises.
\<close>

lemma pin_step_failed:
  "failed (pin_step p cfg pnl depth n i f rpc st) + length (callback_raised (trace st))
     = failed st + (if file_pinned p cfg pnl depth (f, rpc) then 0 else 1)
       + length (callback_raised (trace (pin_step p cfg pnl depth n i f rpc st)))"
  using pin_file_events(3) [of p cfg pnl depth f rpc]
  by (cases "pin_file p cfg pnl depth f rpc")
     (simp add: pin_step_def Let_def file_pinned_def is_pinned_def callback_raised_append
           split: outcome.splits option.splits prod.splits)

lemma pin_step_log_lines:
  "log_lines (trace (pin_step p cfg pnl depth n i f rpc st))
     = log_lines (trace st) @ [(Suc i, n, sel_original_name f)]"
  using pin_file_events(1) [of p cfg pnl depth f rpc]
  by (cases "pin_file p cfg pnl depth f rpc")
     (simp add: pin_step_def Let_def log_lines_append split: outcome.splits option.splits prod.splits)

lemma pin_step_callback_ids:
  "callback_ids (trace (pin_step p cfg pnl depth n i f rpc st))
     = callback_ids (trace st) @
       (if file_pinned p cfg pnl depth (f, rpc) \<and> file_registry_callback pnl \<noteq> None
        then [sel_file_id f] else [])"
  using pin_file_events(2) [of p cfg pnl depth f rpc]
  by (cases "pin_file p cfg pnl depth f rpc")
     (auto simp: pin_step_def Let_def callback_ids_append file_pinned_def is_pinned_def
           split: outcome.splits option.splits prod.splits)

lemma pin_loop_successful:
  "successful (pin_loop p cfg pnl depth n i batch st)
     = successful st + length (filter (file_pinned p cfg pnl depth) batch)"
  by (induction batch arbitrary: i st) (auto simp: pin_step_successful)

lemma pin_loop_failed:
  "failed (pin_loop p cfg pnl depth n i batch st) + length (callback_raised (trace st))
     = failed st + length (filter (\<lambda>fr. \<not> file_pinned p cfg pnl depth fr) batch)
       + length (callback_raised (trace (pin_loop p cfg pnl depth n i batch st)))"
proof (induction batch arbitrary: i st)
  case Nil
  then show ?case by simp
next
  case (Cons fr batch)
  obtain f rpc where fr: "fr = (f, rpc)"
    by (cases fr)
  let ?next = "pin_step p cfg pnl depth n i f rpc st"
  from Cons.IH [of "Suc i" ?next] pin_step_failed [of p cfg pnl depth n i f rpc st]
  show ?case
    by (simp add: fr split: if_splits)
qed

lemma pin_loop_log_lines:
  "log_lines (trace (pin_loop p cfg pnl depth n i batch st))
     = log_lines (trace st) @
       map2 (\<lambda>k fr. (Suc k, n, sel_original_name (fst fr))) [i..<i + length batch] batch"
proof (induction batch arbitrary: i st)
  case Nil
  then show ?case by simp
next
  case (Cons fr batch)
  have "[i..<i + length (fr # batch)] = i # [Suc i..<Suc i + length batch]"
    by (subst upt_rec) simp
  then show ?case
    by (cases fr) (simp add: Cons.IH pin_step_log_lines del: upt_Suc)
qed

lemma pin_loop_callback_ids:
  "callback_ids (trace (pin_loop p cfg pnl depth n i batch st))
     = callback_ids (trace st) @
       (if file_registry_callback pnl = None then []
        else map (sel_file_id \<circ> fst) (filter (file_pinned p cfg pnl depth) batch))"
  by (induction batch arbitrary: i st) (auto simp: pin_step_callback_ids)

text \<open>The registry changes through the callback only, and only for a pinned file.\<close>

lemma pin_step_registry_unchanged:
  "file_registry_callback pnl = None \<or> \<not> file_pinned p cfg pnl depth (f, rpc) \<Longrightarrow>
   registry (pin_step p cfg pnl depth n i f rpc st) = registry st"
  by (cases "pin_file p cfg pnl depth f rpc")
     (auto simp: pin_step_def Let_def file_pinned_def is_pinned_def
           split: outcome.splits option.splits prod.splits)

lemma pin_loop_registry_unchanged:
  "file_registry_callback pnl = None \<or> filter (file_pinned p cfg pnl depth) batch = [] \<Longrightarrow>
   registry (pin_loop p cfg pnl depth n i batch st) = registry st"
  by (induction batch arbitrary: i st)
     (auto simp: pin_step_registry_unchanged split: if_splits)

text \<open>
  C3 holds for the runs in which no registry callback raises, and the code departs
  from it in the others. Of a batch of \<open>N\<close> files, let \<open>M\<close> be the number that
  fail: the body raises in one of its steps, or the receipt has a status other than 1.
  The run logs every file of the batch, in the order of the selection, whatever
  happens to the files before it; it ends with \<open>successful = N - M\<close>; the registry
  callback is called for the pinned files and for no other, in their order; and
  without a callback or without a pinned file the registry is as before. The counter
  \<open>failed\<close> is \<open>M\<close> plus the number of callbacks that raised: a file whose
  transaction was mined with status 1 and whose callback raises is counted as
  successful and as failed, so the two counters add up to more than \<open>N\<close>.
\<close>

theorem execute_pinning_batch:
  "let st = execute_pinning p cfg pnl depth batch reg;
       M = length (filter (\<lambda>fr. \<not> file_pinned p cfg pnl depth fr) batch)
   in successful st = length batch - M
      \<and> failed st = M + length (callback_raised (trace st))
      \<and> log_lines (trace st)
          = map2 (\<lambda>k fr. (Suc k, length batch, sel_original_name (fst fr))) [0..<length batch] batch
      \<and> callback_ids (trace st)
          = (if file_registry_callback pnl = None then []
             else map (sel_file_id \<circ> fst) (filter (file_pinned p cfg pnl depth) batch))
      \<and> (file_registry_callback pnl = None \<or> filter (file_pinned p cfg pnl depth) batch = []
           \<longrightarrow> registry st = reg)"
proof -
  let ?init = "\<lparr> successful = 0, failed = 0, registry = reg, trace = [] \<rparr>"
  let ?fin = "pin_loop p cfg pnl depth (length batch) 0 batch ?init"
  let ?P = "file_pinned p cfg pnl depth"
  have len: "length (filter ?P batch) + length (filter (\<lambda>fr. \<not> ?P fr) batch) = length batch"
    by (rule sum_length_filter_compl)
  have s: "successful ?fin = length batch - length (filter (\<lambda>fr. \<not> ?P fr) batch)"
    using len by (simp add: pin_loop_successful)
  have f: "failed ?fin
      = length (filter (\<lambda>fr. \<not> ?P fr) batch) + length (callback_raised (trace ?fin))"
    using pin_loop_failed [of p cfg pnl depth "length batch" 0 batch ?init] by simp
  have l: "log_lines (trace ?fin)
      = map2 (\<lambda>k fr. (Suc k, length batch, sel_original_name (fst fr))) [0..<length batch] batch"
    using pin_loop_log_lines [of p cfg pnl depth "length batch" 0 batch ?init] by simp
  have c: "callback_ids (trace ?fin)
      = (if file_registry_callback pnl = None then []
         else map (sel_file_id \<circ> fst) (filter ?P batch))"
    by (simp add: pin_loop_callback_ids)
  have r: "file_registry_callback pnl = None \<or> filter ?P batch = [] \<longrightarrow> registry ?fin = reg"
    using pin_loop_registry_unchanged [of pnl p cfg depth batch "length batch" 0 ?init] by simp
  from s f l c r show ?thesis
    unfolding execute_pinning_def Let_def by (intro conjI)
qed

subsection \<open>The examples, evaluated\<close>

lemma default_config_fields:
  "gas_limit_buffer (default_config p) = rnd p (12 / 10)"
  "gas_price_buffer (default_config p) = rnd p (11 / 10)"
  "min_gas_price_gwei (default_config p) = rnd p 1"
  "default_gas_limit (default_config p) = 500000"
  "max_gas_limit (default_config p) = 2000000"
  by (simp_all add: default_config_def)

lemma auto_price_example:
  "get_manual_gas_price 1000 test_platform (default_config test_platform) ''Auto'' (Inr 20000000000)
     = Inr 22000000000"
proof -
  have "get_manual_gas_price (Suc 999) test_platform (default_config test_platform) ''Auto''
          (Inr 20000000000) = Inr 22000000000"
    by (subst get_manual_gas_price_auto [OF is_auto_examples(1) refl, where m = 1000000000])
       (simp_all add: test_platform_def default_config_def int_times_float_def py_int_def)
  then show ?thesis by simp
qed

lemma test_rnd: "rnd test_platform x = x"
  by (simp add: test_platform_def)

lemma test_from_wei:
  "from_wei test_platform number k =
     (if number < 0 \<or> 2 ^ 256 - 1 < number
      then Inl (Exn ValueError ''value must be between 1 and 2**256 - 1'')
      else Inr (of_int number / 10 ^ k))"
  by (simp add: test_platform_def)

lemmas run_example =
  pin_file_def try_step_def auto_price_example float_from_wei_def test_from_wei test_rnd
  gas_limit_of_def int_times_float_def py_int_def default_config_fields test_panel_def

lemma pin_file_ok:
  "pin_file test_platform (default_config test_platform) test_panel 1000 f ok_rpc
     = ([BuildTransaction \<lparr> tx_value = 1000000000000000, tx_gas = 120000, tx_gasPrice = 22000000000,
                             tx_nonce = 7, tx_chainId = 11155111 \<rparr>,
         SignTransaction, SendRawTransaction [0xf8, 0x6c]],
        Pinned [''blockchain_pinned'' \<mapsto> PBool True,
             ''pin_tx'' \<mapsto> PStr ''ab12'',
             ''pin_date'' \<mapsto> PStr ''2025-01-01T00:00:00'',
             ''pin_duration_days'' \<mapsto> PInt 30,
             ''pin_network'' \<mapsto> PStr ''sepolia'',
             ''pin_gas_used'' \<mapsto> PInt 90000,
             ''pin_gas_price_gwei'' \<mapsto> PFloat 22])"
  by (simp add: run_example ok_rpc_def)

lemma pin_file_reverted:
  "pin_file test_platform (default_config test_platform) test_panel 1000 f reverted_rpc
     = ([BuildTransaction \<lparr> tx_value = 1000000000000000, tx_gas = 120000, tx_gasPrice = 22000000000,
                             tx_nonce = 7, tx_chainId = 11155111 \<rparr>,
         SignTransaction, SendRawTransaction [0xf8, 0x6c]], TxFailed)"
  by (simp add: run_example ok_rpc_def reverted_rpc_def)

lemma pin_file_refused:
  "pin_file test_platform (default_config test_platform) test_panel 1000 f refused_rpc
     = ([BuildTransaction \<lparr> tx_value = 1000000000000000, tx_gas = 120000, tx_gasPrice = 22000000000,
                             tx_nonce = 7, tx_chainId = 11155111 \<rparr>,
         SignTransaction], Raised (Exn RpcError ''nonce too low''))"
  by (simp add: run_example ok_rpc_def refused_rpc_def)

lemma pin_file_no_estimate:
  "pin_file test_platform (default_config test_platform) test_panel 1000 f no_estimate_rpc
     = ([BuildTransaction \<lparr> tx_value = 1000000000000000, tx_gas = 500000, tx_gasPrice = 22000000000,
                             tx_nonce = 7, tx_chainId = 11155111 \<rparr>,
         SignTransaction, SendRawTransaction [0xf8, 0x6c]],
        Pinned [''blockchain_pinned'' \<mapsto> PBool True,
             ''pin_tx'' \<mapsto> PStr ''ab12'',
             ''pin_date'' \<mapsto> PStr ''2025-01-01T00:00:00'',
             ''pin_duration_days'' \<mapsto> PInt 30,
             ''pin_network'' \<mapsto> PStr ''sepolia'',
             ''pin_gas_used'' \<mapsto> PInt 90000,
             ''pin_gas_price_gwei'' \<mapsto> PFloat 22])"
  by (simp add: run_example ok_rpc_def no_estimate_rpc_def)

lemma pin_file_high_estimate:
  "fst (pin_file test_platform (default_config test_platform) test_panel 1000 f high_estimate_rpc)
     = [BuildTransaction \<lparr> tx_value = 1000000000000000, tx_gas = 2000000, tx_gasPrice = 22000000000,
                             tx_nonce = 7, tx_chainId = 11155111 \<rparr>,
         SignTransaction, SendRawTransaction [0xf8, 0x6c]]"
  by (simp add: run_example ok_rpc_def high_estimate_rpc_def)

lemma pin_file_refresh_error:
  "pin_file test_platform (default_config test_platform) test_panel 1000 f refresh_error_rpc
     = ([BuildTransaction \<lparr> tx_value = 1000000000000000, tx_gas = 120000, tx_gasPrice = 22000000000,
                             tx_nonce = 7, tx_chainId = 11155111 \<rparr>,
         SignTransaction, SendRawTransaction [0xf8, 0x6c]],
        Pinned [''blockchain_pinned'' \<mapsto> PBool True,
             ''pin_tx'' \<mapsto> PStr ''ab12'',
             ''pin_date'' \<mapsto> PStr ''2025-01-01T00:00:00'',
             ''pin_duration_days'' \<mapsto> PInt 30,
             ''pin_network'' \<mapsto> PStr ''sepolia'',
             ''pin_gas_used'' \<mapsto> PInt 90000,
             ''pin_gas_price_gwei'' \<mapsto> PFloat 22])"
  by (simp add: run_example ok_rpc_def refresh_error_rpc_def)

text \<open>
  The failing input of C3: one file, whose transaction is mined with status 1 and whose
  record is in the registry, and a redraw of the list that raises inside the callback.
  No step of the file fails (\<open>N = 1\<close>, \<open>M = 0\<close>), the record is updated, and
  the run ends with \<open>successful = 1\<close> and \<open>failed = 1\<close>. Then three files:
  the same first file, a second that the node refuses, and a third that is pinned and
  whose callback returns; the run goes through all three and ends with
  \<open>successful = 2\<close> and \<open>failed = 2\<close>.
\<close>

theorem execute_pinning_batch_witness:
  "(let st = execute_pinning test_platform (default_config test_platform) test_panel 1000
              [(file_a, refresh_error_rpc)] test_registry
    in file_pinned test_platform (default_config test_platform) test_panel 1000
         (file_a, refresh_error_rpc)
       \<and> successful st = 1 \<and> failed st = 1
       \<and> callback_raised (trace st) = [Exn RuntimeError ''main thread is not in main loop'']
       \<and> log_lines (trace st) = [(1, 1, ''a.txt'')]
       \<and> callback_ids (trace st) = [''ba7816bf8f01cfea'']
       \<and> blockchain_pinned (the (registry st ''ba7816bf8f01cfea'')))
   \<and> (let st = execute_pinning test_platform (default_config test_platform) test_panel 1000
              [(file_a, refresh_error_rpc), (file_b, refused_rpc), (file_c, ok_rpc)] test_registry
       in successful st = 2 \<and> failed st = 2
          \<and> log_lines (trace st) = [(1, 3, ''a.txt''), (2, 3, ''b.bin''), (3, 3, ''c.pdf'')]
          \<and> callback_ids (trace st) = [''ba7816bf8f01cfea'', ''fedcba9876543210''])"
proof -
  let ?p = test_platform
  let ?P = "file_pinned ?p (default_config ?p) test_panel 1000"
  let ?one = "execute_pinning ?p (default_config ?p) test_panel 1000
                [(file_a, refresh_error_rpc)] test_registry"
  let ?three = "execute_pinning ?p (default_config ?p) test_panel 1000
                  [(file_a, refresh_error_rpc), (file_b, refused_rpc), (file_c, ok_rpc)] test_registry"
  have p: "?P (file_a, refresh_error_rpc)" "\<not> ?P (file_b, refused_rpc)" "?P (file_c, ok_rpc)"
    by (simp_all add: file_pinned_def is_pinned_def pin_file_refresh_error pin_file_ok
          pin_file_refused)
  have u: "[0..<3] = [0, 1, 2]"
    by (simp add: upt_rec)
  have cb: "file_registry_callback test_panel \<noteq> None"
    by (simp add: test_panel_def)
  have names: "sel_original_name file_a = ''a.txt''" "sel_original_name file_b = ''b.bin''"
    "sel_original_name file_c = ''c.pdf''" "sel_file_id file_a = ''ba7816bf8f01cfea''"
    "sel_file_id file_c = ''fedcba9876543210''"
    by (simp_all add: file_a_def file_b_def file_c_def)
  have ids: "test_registry ''ba7816bf8f01cfea'' = Some pinned_record"
    "test_registry ''fedcba9876543210'' = None"
    by (simp_all add: test_registry_def)
  have refresh: "rpc_refresh_file_list refresh_error_rpc
      = Some (Exn RuntimeError ''main thread is not in main loop'')"
    "rpc_refresh_file_list refused_rpc = None" "rpc_refresh_file_list ok_rpc = None"
    by (simp_all add: refresh_error_rpc_def refused_rpc_def ok_rpc_def)
  have callback: "file_registry_callback test_panel = Some update_file_pinning_status"
    by (simp add: test_panel_def)
  have raised_one: "callback_raised (trace ?one) = [Exn RuntimeError ''main thread is not in main loop'']"
    by (simp add: execute_pinning_def pin_step_def pin_file_refresh_error pin_file_ok callback
          update_file_pinning_status_def names ids refresh)
  have reg_one: "blockchain_pinned (the (registry ?one ''ba7816bf8f01cfea''))"
    by (simp add: execute_pinning_def pin_step_def pin_file_refresh_error pin_file_ok callback
          update_file_pinning_status_def names ids refresh blockchain_pinned_def)
  have raised_three: "length (callback_raised (trace ?three)) = 1"
    by (simp add: execute_pinning_def pin_step_def pin_file_refresh_error pin_file_ok
          pin_file_refused callback update_file_pinning_status_def names ids refresh)
  from execute_pinning_batch [of ?p "default_config ?p" test_panel 1000
      "[(file_a, refresh_error_rpc)]" test_registry]
  have one: "successful ?one = 1 \<and> failed ?one = 1
       \<and> log_lines (trace ?one) = [(1, 1, ''a.txt'')]
       \<and> callback_ids (trace ?one) = [''ba7816bf8f01cfea'']"
    by (simp add: Let_def p cb names raised_one)
  from execute_pinning_batch [of ?p "default_config ?p" test_panel 1000
      "[(file_a, refresh_error_rpc), (file_b, refused_rpc), (file_c, ok_rpc)]" test_registry]
  have three: "successful ?three = 2 \<and> failed ?three = 2
       \<and> log_lines (trace ?three) = [(1, 3, ''a.txt''), (2, 3, ''b.bin''), (3, 3, ''c.pdf'')]
       \<and> callback_ids (trace ?three) = [''ba7816bf8f01cfea'', ''fedcba9876543210'']"
    by (simp add: Let_def p u cb names raised_three)
  from one three p(1) raised_one reg_one show ?thesis
    unfolding Let_def by (intro conjI) simp_all
qed

subsection \<open>The gas limit\<close>




section \<open>Properties of pin\_files\<close>



text \<open>With a balance of 2 ether the same run goes on to the transactions.\<close>

lemma pin_files_sufficient_example:
  "events_of (pin_files test_platform (default_config test_platform) test_panel 1000
      (test_preflight \<lparr> pre_get_balance := Inr 2000000000000000000 \<rparr>) [(file_a, ok_rpc)] test_registry)
   \<noteq> []"
  by (simp add: pin_files_def test_preflight_def auto_price_example float_from_wei_def test_from_wei
        test_rnd events_of_def execute_pinning_def pin_step_def pin_file_ok Let_def
        split: option.splits prod.splits)

subsection \<open>The comparison on floats\<close>

text \<open>The roundings of the example, computed.\<close>

lemma floor_rat_numeral: "\<lfloor>numeral a / numeral b :: rat\<rfloor> = numeral a div numeral b"
  using floor_divide_of_int_eq [of "numeral a" "numeral b", where ?'a = rat] by simp

lemma ceiling_rat_numeral: "\<lceil>numeral a / numeral b :: rat\<rceil> = - (- numeral a div numeral b)"
proof -
  have "- (numeral a / numeral b :: rat) = of_int (- numeral a) / of_int (numeral b)"
    by simp
  then have "\<lfloor>- (numeral a / numeral b :: rat)\<rfloor> = - numeral a div numeral b"
    by (simp only: floor_divide_of_int_eq)
  then show ?thesis
    by (simp only: ceiling_def)
qed

lemma ieee_round_pos:
  assumes "0 < x" "floor_log2 x = e" "pow2 (max (e - 52) (- 1074)) = u"
    "round_half_even (x / u) = m" "of_int m * u = y"
  shows "ieee_round x = y"
  using assms by (simp add: ieee_round_def Let_def)

lemmas log2_eval = floor_log2_def bit_length.simps floor_rat_numeral ceiling_rat_numeral

lemmas rhe_eval = round_half_even_def Let_def floor_rat_numeral

text \<open>Of two nearest floats the even one is taken: the integers above \<open>2 ^ 53\<close>.\<close>

lemma ieee_round_ties:
  "ieee_round 9007199254740993 = 9007199254740992"
  "ieee_round 9007199254740995 = 9007199254740996"
   apply (rule ieee_round_pos [where e = 53 and u = 2 and m = 4503599627370496])
       apply simp
      apply (simp add: log2_eval)
     apply (simp add: pow2_def)
    apply (simp add: rhe_eval)
   apply simp
  apply (rule ieee_round_pos [where e = 53 and u = 2 and m = 4503599627370498])
      apply simp
     apply (simp add: log2_eval)
    apply (simp add: pow2_def)
   apply (simp add: rhe_eval)
  apply simp
  done

















section \<open>Properties of the file registry\<close>

lemma registry_inv_update:
  "registry_inv reg \<Longrightarrow> \<not> blockchain_pinned r \<or> (\<exists>tx. r ''pin_tx'' = Some (PStr tx)) \<Longrightarrow>
   registry_inv (reg(file_id \<mapsto> r))"
  by (auto simp: registry_inv_def)

lemma registry_inv_remove: "registry_inv reg \<Longrightarrow> registry_inv (reg(file_id := None))"
  by (auto simp: registry_inv_def)

lemma registry_inv_upload:
  "registry_inv reg \<Longrightarrow>
   registry_inv (snd (upload_file_thread lib iterations fs urandom nonce ipfs now file_path password reg))"
  by (auto simp: upload_file_thread_def Let_def blockchain_pinned_def
           intro!: registry_inv_update split: sum.splits)

lemma registry_inv_pin_status:
  assumes "registry_inv reg" "pin_info ''pin_tx'' = Some (PStr tx)"
  shows "registry_inv (snd (update_file_pinning_status refresh file_id pin_info reg))"
proof (cases "reg file_id")
  case None
  with assms show ?thesis by (simp add: update_file_pinning_status_def)
next
  case (Some r)
  have "(r ++ pin_info) ''pin_tx'' = Some (PStr tx)"
    using assms(2) by (simp add: map_add_def)
  then have "\<not> blockchain_pinned (r ++ pin_info) \<or> (\<exists>tx. (r ++ pin_info) ''pin_tx'' = Some (PStr tx))"
    by (intro disjI2 exI)
  with assms(1) have "registry_inv (reg(file_id \<mapsto> r ++ pin_info))"
    by (rule registry_inv_update)
  with Some show ?thesis
    by (simp add: update_file_pinning_status_def)
qed

lemma registry_inv_delete:
  "registry_inv reg \<Longrightarrow> registry_inv (fst (delete_file selection reg deleted))"
  by (induction selection reg deleted rule: delete_file.induct)
     (auto simp: registry_inv_remove split: option.splits)

lemma registry_inv_pin_step:
  assumes "registry_inv (registry st)"
    and "file_registry_callback pnl = None \<or> file_registry_callback pnl = Some update_file_pinning_status"
  shows "registry_inv (registry (pin_step p cfg pnl depth n i f rpc st))"
proof (cases "pin_file p cfg pnl depth f rpc")
  case (Pair evs out)
  show ?thesis
  proof (cases out)
    case (Pinned info)
    with Pair obtain tx where "info ''pin_tx'' = Some (PStr tx)"
      using pin_file_pin_tx by blast
    then have "registry_inv (snd (update_file_pinning_status (rpc_refresh_file_list rpc)
        (sel_file_id f) info (registry st)))"
      using assms(1) by (intro registry_inv_pin_status)
    with assms Pair Pinned show ?thesis
      by (auto simp: pin_step_def Let_def split: prod.splits)
  next
    case TxFailed
    with assms Pair show ?thesis by (simp add: pin_step_def Let_def)
  next
    case (Raised e)
    with assms Pair show ?thesis by (simp add: pin_step_def Let_def)
  qed
qed

lemma registry_inv_pin_loop:
  assumes "file_registry_callback pnl = None \<or> file_registry_callback pnl = Some update_file_pinning_status"
  shows "registry_inv (registry st) \<Longrightarrow>
         registry_inv (registry (pin_loop p cfg pnl depth n i batch st))"
  by (induction batch arbitrary: i st) (auto simp: registry_inv_pin_step [OF _ assms])

text \<open>
  C9. Each mutation of the registry keeps the invariant that a record which reads as
  pinned has a transaction hash under \<^verbatim>\<open>pin_tx\<close>: the creation of a record by
  an upload (successful or not), the pin-status updates of a whole run of
  \<^verbatim>\<open>execute_pinning\<close> through the callback of the application, and the deletion
  of any selection of rows.
\<close>

theorem registry_inv_preserved:
  assumes "registry_inv reg"
  shows "registry_inv (snd (upload_file_thread lib iterations fs urandom nonce ipfs now file_path password reg))
       \<and> (file_registry_callback pnl = Some update_file_pinning_status \<longrightarrow>
            registry_inv (registry (execute_pinning p cfg pnl depth batch reg)))
       \<and> registry_inv (fst (delete_file selection reg deleted))"
proof (intro conjI impI)
  show "registry_inv (snd (upload_file_thread lib iterations fs urandom nonce ipfs now file_path password reg))"
    using assms by (rule registry_inv_upload)
  show "registry_inv (fst (delete_file selection reg deleted))"
    using assms by (rule registry_inv_delete)
  assume "file_registry_callback pnl = Some update_file_pinning_status"
  then have cb: "file_registry_callback pnl = None
      \<or> file_registry_callback pnl = Some update_file_pinning_status"
    by simp
  have "registry_inv (registry \<lparr> successful = 0, failed = 0, registry = reg, trace = [] \<rparr>)"
    using assms by simp
  then show "registry_inv (registry (execute_pinning p cfg pnl depth batch reg))"
    unfolding execute_pinning_def by (rule registry_inv_pin_loop [OF cb])
qed

subsection \<open>Creation of a record\<close>

lemma toy_hexdigest:
  "hexdigest toy_lib d = ''ba7816bf8f01cfea414140de5dae2223b00361a396177a9cb410ff61f20015ad''"
  by (simp add: hexdigest_def hex_of_def hex_digit_def toy_lib_def)

lemma toy_encrypt_abc:
  "\<exists>er. encrypt_file toy_lib 100000 [''/tmp/a.txt'' \<mapsto> [0x61, 0x62, 0x63]] [7, 7] [9]
          ''/tmp/a.txt'' ''pw1'' = Inr er
        \<and> original_hash er = ''ba7816bf8f01cfea414140de5dae2223b00361a396177a9cb410ff61f20015ad''
        \<and> original_name er = ''a.txt'' \<and> original_size er = 3"
proof -
  have k: "\<exists>key. generate_key_from_password toy_lib 100000 [7, 7] ''pw1'' None = Inr (key, [7, 7])
      \<and> Fernet toy_lib key = Inr key"
    by (simp add: generate_key_from_password_def toy_lib_def)
  then obtain key where "generate_key_from_password toy_lib 100000 [7, 7] ''pw1'' None = Inr (key, [7, 7])"
    and "Fernet toy_lib key = Inr key"
    by blast
  then show ?thesis
    by (simp add: encrypt_file_def reraise_def toy_hexdigest basename_def Let_def)
qed

text \<open>
  C8, as amended. An upload never fails because of the id: when the encryption and the
  store succeed, \<^verbatim>\<open>upload_file_thread\<close> returns the file id (the first 16
  characters of the hexadecimal hash of the plaintext) and the registry holds under it
  the new record, with \<^verbatim>\<open>blockchain_pinned\<close> false, whatever it held under that
  id before; the other records are as before.
\<close>

theorem upload_replaces_record:
  assumes "encrypt_file lib iterations fs urandom nonce file_path password = Inr er"
    and "ipfs = Inr ipfs_result"
  shows "upload_file_thread lib iterations fs urandom nonce ipfs now file_path password reg
         = (Inr (take 16 (original_hash er)),
            reg(take 16 (original_hash er) \<mapsto> ipfs_result ++
                 [''original_name'' \<mapsto> PStr (original_name er),
                  ''original_size'' \<mapsto> PInt (int (original_size er)),
                  ''upload_date'' \<mapsto> PStr now,
                  ''file_hash'' \<mapsto> PStr (original_hash er),
                  ''blockchain_pinned'' \<mapsto> PBool False]))"
  using assms by (simp add: upload_file_thread_def Let_def)


text \<open>The upload of a file of three bytes into an empty registry.\<close>

theorem upload_replaces_record_witness:
  "\<exists>reg'. upload_file_thread toy_lib 100000 [''/tmp/a.txt'' \<mapsto> [0x61, 0x62, 0x63]] [7, 7] [9]
          (Inr test_ipfs_result) ''2025-01-01T00:00:00'' ''/tmp/a.txt'' ''pw1'' Map.empty
        = (Inr ''ba7816bf8f01cfea'', reg')
      \<and> (\<exists>r. reg' ''ba7816bf8f01cfea'' = Some r
            \<and> r ''file_cid'' = Some (PStr ''QmNew'')
            \<and> r ''original_name'' = Some (PStr ''a.txt'')
            \<and> r ''blockchain_pinned'' = Some (PBool False))"
proof -
  from toy_encrypt_abc obtain er where
    e: "encrypt_file toy_lib 100000 [''/tmp/a.txt'' \<mapsto> [0x61, 0x62, 0x63]] [7, 7] [9]
          ''/tmp/a.txt'' ''pw1'' = Inr er"
    and h: "original_hash er = ''ba7816bf8f01cfea414140de5dae2223b00361a396177a9cb410ff61f20015ad''"
    and n: "original_name er = ''a.txt''"
    by blast
  have c: "test_ipfs_result ''file_cid'' = Some (PStr ''QmNew'')"
    by (simp add: test_ipfs_result_def)
  show ?thesis
    by (simp add: upload_replaces_record [OF e refl] h n c)
qed

text \<open>
  C8 as first stated (a creation fails with a duplicate-id error and never
  overwrites) fails on the code: the registry holds a pinned record under the id of the
  file, the upload of the file succeeds, and the record under the id is the new one,
  without the transaction hash of the old one.
\<close>

theorem upload_duplicate_id_counterexample:
  "test_registry ''ba7816bf8f01cfea'' = Some pinned_record
   \<and> pinned_record ''pin_tx'' = Some (PStr ''ab12'')
   \<and> fst (upload_file_thread toy_lib 100000 [''/tmp/a.txt'' \<mapsto> [0x61, 0x62, 0x63]] [7, 7] [9]
          (Inr test_ipfs_result) ''2025-01-01T00:00:00'' ''/tmp/a.txt'' ''pw1'' test_registry)
       = Inr ''ba7816bf8f01cfea''
   \<and> snd (upload_file_thread toy_lib 100000 [''/tmp/a.txt'' \<mapsto> [0x61, 0x62, 0x63]] [7, 7] [9]
          (Inr test_ipfs_result) ''2025-01-01T00:00:00'' ''/tmp/a.txt'' ''pw1'' test_registry)
         ''ba7816bf8f01cfea'' \<noteq> Some pinned_record
   \<and> the (snd (upload_file_thread toy_lib 100000 [''/tmp/a.txt'' \<mapsto> [0x61, 0x62, 0x63]] [7, 7] [9]
          (Inr test_ipfs_result) ''2025-01-01T00:00:00'' ''/tmp/a.txt'' ''pw1'' test_registry)
         ''ba7816bf8f01cfea'') ''pin_tx'' = None
   \<and> the (snd (upload_file_thread toy_lib 100000 [''/tmp/a.txt'' \<mapsto> [0x61, 0x62, 0x63]] [7, 7] [9]
          (Inr test_ipfs_result) ''2025-01-01T00:00:00'' ''/tmp/a.txt'' ''pw1'' test_registry)
         ''ba7816bf8f01cfea'') ''blockchain_pinned'' = Some (PBool False)"
proof -
  from toy_encrypt_abc obtain er where
    e: "encrypt_file toy_lib 100000 [''/tmp/a.txt'' \<mapsto> [0x61, 0x62, 0x63]] [7, 7] [9]
          ''/tmp/a.txt'' ''pw1'' = Inr er"
    and h: "original_hash er = ''ba7816bf8f01cfea414140de5dae2223b00361a396177a9cb410ff61f20015ad''"
    by blast
  let ?r = "test_ipfs_result ++
                 [''original_name'' \<mapsto> PStr (original_name er),
                  ''original_size'' \<mapsto> PInt (int (original_size er)),
                  ''upload_date'' \<mapsto> PStr ''2025-01-01T00:00:00'',
                  ''file_hash'' \<mapsto> PStr (original_hash er),
                  ''blockchain_pinned'' \<mapsto> PBool False]"
  have u: "upload_file_thread toy_lib 100000 [''/tmp/a.txt'' \<mapsto> [0x61, 0x62, 0x63]] [7, 7] [9]
          (Inr test_ipfs_result) ''2025-01-01T00:00:00'' ''/tmp/a.txt'' ''pw1'' test_registry
        = (Inr ''ba7816bf8f01cfea'', test_registry(''ba7816bf8f01cfea'' \<mapsto> ?r))"
    by (simp add: upload_file_thread_def e h Let_def)
  have t: "?r ''pin_tx'' = None"
    by (simp add: test_ipfs_result_def map_add_def)
  have p: "pinned_record ''pin_tx'' = Some (PStr ''ab12'')"
    by (simp add: pinned_record_def)
  from t p have d: "?r \<noteq> pinned_record"
    by (metis option.distinct(1))
  have b: "?r ''blockchain_pinned'' = Some (PBool False)"
    by simp
  have o: "test_registry ''ba7816bf8f01cfea'' = Some pinned_record"
    by (simp add: test_registry_def)
  from t d b o p show ?thesis
    unfolding u by simp
qed

text \<open>
  A registry with a pinned record: after an upload under the same id, after a run of
  two files (one pinned, one refused by the node), and after a deletion.
\<close>

theorem registry_inv_preserved_witness:
  "registry_inv test_registry
   \<and> registry_inv (snd (upload_file_thread toy_lib 100000 [''/tmp/a.txt'' \<mapsto> [0x61, 0x62, 0x63]]
        [7, 7] [9] (Inr test_ipfs_result) ''2025-01-01T00:00:00'' ''/tmp/a.txt'' ''pw1'' test_registry))
   \<and> registry_inv (registry (execute_pinning test_platform (default_config test_platform) test_panel
        1000 [(file_a, ok_rpc), (file_b, refused_rpc)] test_registry))
   \<and> registry_inv (fst (delete_file [(''ba7816bf8f01cfea'', True)] test_registry 0))"
proof -
  have inv: "registry_inv test_registry"
    by (auto simp: registry_inv_def test_registry_def pinned_record_def split: if_splits)
  have cb: "file_registry_callback test_panel = Some update_file_pinning_status"
    by (simp add: test_panel_def)
  from registry_inv_preserved [OF inv, where pnl = test_panel] cb inv
  show ?thesis by blast
qed

end
